theory Spec2Isabelle
  imports Complex_Main "HOL-Library.Sublist"
begin

section \<open>Python values\<close>

text \<open>
  A Python float is a finite value, an infinity or not-a-number (the two zeros are not
  told apart). Comparisons of floats are exact and false on not-a-number; the arithmetic
  rounds, and how it rounds is left open: every function that computes with floats takes
  the rounding operations as its first argument \<open>F\<close>, and what is proved holds for every
  \<open>F\<close>. Python ints are unbounded integers.
\<close>

datatype pyfloat = Finite real | PosInf | NegInf | NaN

fun flt :: "pyfloat \<Rightarrow> pyfloat \<Rightarrow> bool" where
  "flt (Finite a) (Finite b) = (a < b)"
| "flt (Finite a) PosInf = True"
| "flt NegInf (Finite b) = True"
| "flt NegInf PosInf = True"
| "flt _ _ = False"

definition fle :: "pyfloat \<Rightarrow> pyfloat \<Rightarrow> bool" where
  "fle a b \<longleftrightarrow> flt a b \<or> (a = b \<and> a \<noteq> NaN)"

fun fneg :: "pyfloat \<Rightarrow> pyfloat" where
  "fneg (Finite a) = Finite (- a)"
| "fneg PosInf = NegInf"
| "fneg NegInf = PosInf"
| "fneg NaN = NaN"

text \<open>
  The rounding operations: the float nearest to an int within range, the four operations
  on floats (the division for a divisor other than zero), and the builtin \<open>sum\<close> of a list
  of floats.
\<close>

record arith =
  f_of_int :: "int \<Rightarrow> pyfloat"
  f_add :: "pyfloat \<Rightarrow> pyfloat \<Rightarrow> pyfloat"
  f_sub :: "pyfloat \<Rightarrow> pyfloat \<Rightarrow> pyfloat"
  f_mul :: "pyfloat \<Rightarrow> pyfloat \<Rightarrow> pyfloat"
  f_div :: "pyfloat \<Rightarrow> pyfloat \<Rightarrow> pyfloat"
  f_sum :: "pyfloat list \<Rightarrow> pyfloat"

datatype exec_msg =
    SimulatedFailure string int string pyfloat
  | InsufficientCash int string pyfloat
  | InsufficientPosition int string

datatype exn =
    OrderError string
  | ExecutionError exec_msg
  | ValueError string
  | KeyError string
  | IndexError
  | ZeroDivisionError
  | OverflowError
  | TypeError
  | Exception string

text \<open>
  An int operand of a float operation is converted first; the conversion raises
  \<open>OverflowError\<close> when the int rounds to a value beyond the largest float.
\<close>

definition float_of_int :: "arith \<Rightarrow> int \<Rightarrow> exn + pyfloat" where
  "float_of_int F n =
     (if 2 ^ 1024 - 2 ^ 970 \<le> \<bar>n\<bar> then Inl OverflowError else Inr (f_of_int F n))"

text \<open>\<open>n * x\<close> and \<open>x * n\<close> for an int \<open>n\<close> and a float \<open>x\<close>.\<close>

definition int_times_float :: "arith \<Rightarrow> int \<Rightarrow> pyfloat \<Rightarrow> exn + pyfloat" where
  "int_times_float F n x =
     (case float_of_int F n of Inl e \<Rightarrow> Inl e | Inr y \<Rightarrow> Inr (f_mul F y x))"

definition float_times_int :: "arith \<Rightarrow> pyfloat \<Rightarrow> int \<Rightarrow> exn + pyfloat" where
  "float_times_int F x n =
     (case float_of_int F n of Inl e \<Rightarrow> Inl e | Inr y \<Rightarrow> Inr (f_mul F x y))"

text \<open>\<open>x / n\<close> for a float \<open>x\<close> and an int \<open>n\<close>, and \<open>x / y\<close> for floats.\<close>

definition float_div_int :: "arith \<Rightarrow> pyfloat \<Rightarrow> int \<Rightarrow> exn + pyfloat" where
  "float_div_int F x n =
     (case float_of_int F n of
        Inl e \<Rightarrow> Inl e
      | Inr y \<Rightarrow> if n = 0 then Inl ZeroDivisionError else Inr (f_div F x y))"

definition float_div :: "arith \<Rightarrow> pyfloat \<Rightarrow> pyfloat \<Rightarrow> exn + pyfloat" where
  "float_div F x y = (if y = Finite 0 then Inl ZeroDivisionError else Inr (f_div F x y))"

text \<open>A \<open>dict\<close> keeps insertion order; assigning to a present key updates it in place.\<close>

fun dict_set :: "('k \<times> 'v) list \<Rightarrow> 'k \<Rightarrow> 'v \<Rightarrow> ('k \<times> 'v) list" where
  "dict_set [] k v = [(k, v)]"
| "dict_set ((k', v') # kvs) k v =
     (if k' = k then (k, v) # kvs else (k', v') # dict_set kvs k v)"

definition dict_get_default :: "('k \<times> 'v) list \<Rightarrow> 'k \<Rightarrow> 'v \<Rightarrow> 'v" where
  "dict_get_default d k dflt = (case map_of d k of None \<Rightarrow> dflt | Some v \<Rightarrow> v)"

text \<open>\<open>deque(maxlen=m).append(x)\<close>: the oldest elements are evicted on overflow.\<close>

definition deque_append :: "nat \<Rightarrow> 'a list \<Rightarrow> 'a \<Rightarrow> 'a list" where
  "deque_append m xs x = drop (Suc (length xs) - m) (xs @ [x])"

text \<open>
  \<open>deque(maxlen=m)\<close> raises \<open>OverflowError\<close> when \<open>m\<close> exceeds \<open>sys.maxsize\<close>, which is
  \<open>2^63 - 1\<close> on a 64-bit build.
\<close>

definition maxsize :: int where
  "maxsize = 2 ^ 63 - 1"

text \<open>The slice \<open>xs[-n:]\<close> for \<open>n \<ge> 0\<close>; \<open>xs[-0:]\<close> is the whole list.\<close>

definition slice_last :: "nat \<Rightarrow> 'a list \<Rightarrow> 'a list" where
  "slice_last n xs = (if n = 0 then xs else drop (length xs - n) xs)"

text \<open>\<open>str.upper\<close> on ASCII letters; every other character is kept.\<close>

definition upper_char :: "char \<Rightarrow> char" where
  "upper_char c =
     (case map_of (zip ''abcdefghijklmnopqrstuvwxyz'' ''ABCDEFGHIJKLMNOPQRSTUVWXYZ'') c of
        Some u \<Rightarrow> u
      | None \<Rightarrow> c)"

definition upper :: "string \<Rightarrow> string" where
  "upper s = map upper_char s"

text \<open>
  A \<open>datetime\<close> is naive (a wall-clock time in microseconds) or aware (an instant in
  microseconds and a UTC offset). Datetimes of one kind are ordered by their time;
  comparing a naive with an aware one raises \<open>TypeError\<close>. So \<open>sorted\<close> by timestamp, a
  stable sort, raises \<open>TypeError\<close> as soon as both kinds occur.
\<close>

datatype datetime = Naive int | Aware int int

fun is_aware :: "datetime \<Rightarrow> bool" where
  "is_aware (Naive t) = False"
| "is_aware (Aware t off) = True"

fun instant :: "datetime \<Rightarrow> int" where
  "instant (Naive t) = t"
| "instant (Aware t off) = t"

definition sorted_by :: "('a \<Rightarrow> datetime) \<Rightarrow> 'a list \<Rightarrow> exn + 'a list" where
  "sorted_by key xs =
     (if (\<exists>x \<in> set xs. is_aware (key x)) \<and> (\<exists>x \<in> set xs. \<not> is_aware (key x))
      then Inl TypeError
      else Inr (sort_key (\<lambda>x. instant (key x)) xs))"

section \<open>Data model (models.py)\<close>

record MarketDataPoint =
  timestamp :: datetime
  symbol :: string
  price :: pyfloat

record Order =
  order_symbol :: string
  quantity :: int
  order_price :: pyfloat
  side :: string
  status :: string

text \<open>\<open>Order.validate\<close>: returns the exception it raises, or \<open>None\<close> when it returns.\<close>

definition validate :: "Order \<Rightarrow> exn option" where
  "validate ord =
     (if quantity ord \<le> 0 then Some (OrderError ''Quantity must be positive.'')
      else if fle (order_price ord) (Finite 0) then Some (OrderError ''Price must be positive.'')
      else if side ord \<notin> {''BUY'', ''SELL''} then Some (OrderError ''Side must be 'BUY' or 'SELL'.'')
      else None)"

section \<open>Strategies (strategies.py)\<close>

type_synonym signal = "string \<times> string \<times> int \<times> pyfloat"

record MovingAverageCrossover =
  mac_symbol :: string
  mac_fast :: nat
  mac_slow :: nat
  mac_qty :: int
  mac_prices :: "pyfloat list"
  mac_prev_diff :: "pyfloat option"

definition MovingAverageCrossover_init ::
  "string \<Rightarrow> int \<Rightarrow> int \<Rightarrow> int \<Rightarrow> exn + MovingAverageCrossover" where
  "MovingAverageCrossover_init smb fast slow qty =
     (if \<not> (fast > 0 \<and> slow > 0 \<and> slow > fast)
      then Inl (ValueError ''Invalid windows: require integers with 0 < fast < slow.'')
      else if maxsize < slow then Inl OverflowError
      else Inr \<lparr>mac_symbol = smb, mac_fast = nat fast, mac_slow = nat slow, mac_qty = qty,
                mac_prices = [], mac_prev_diff = None\<rparr>)"

text \<open>\<open>_sma\<close>.\<close>

definition sma :: "arith \<Rightarrow> pyfloat list \<Rightarrow> nat \<Rightarrow> exn + pyfloat" where
  "sma F prices n =
     (if length prices < n then Inr NaN
      else float_div_int F (f_sum F (slice_last n prices)) (int n))"

definition mac_generate_signals ::
  "arith \<Rightarrow> MovingAverageCrossover \<Rightarrow> MarketDataPoint
     \<Rightarrow> (exn + signal list) \<times> MovingAverageCrossover" where
  "mac_generate_signals F self tick =
     (if symbol tick \<noteq> mac_symbol self then (Inr [], self)
      else
        let self = self\<lparr>mac_prices := deque_append (mac_slow self) (mac_prices self) (price tick)\<rparr>
        in if length (mac_prices self) < mac_slow self then (Inr [], self)
           else
             case sma F (mac_prices self) (mac_fast self) of
               Inl e \<Rightarrow> (Inl e, self)
             | Inr fast_ma \<Rightarrow>
                (case sma F (mac_prices self) (mac_slow self) of
                   Inl e \<Rightarrow> (Inl e, self)
                 | Inr slow_ma \<Rightarrow>
                     if fast_ma = NaN \<or> slow_ma = NaN then (Inr [], self)
                     else
                       let diff = f_sub F fast_ma slow_ma;
                           signals =
                             (case mac_prev_diff self of
                                None \<Rightarrow> []
                              | Some prev \<Rightarrow>
                                  if fle prev (Finite 0) \<and> flt (Finite 0) diff
                                  then [(''BUY'', mac_symbol self, mac_qty self, price tick)]
                                  else if fle (Finite 0) prev \<and> flt diff (Finite 0)
                                  then [(''SELL'', mac_symbol self, mac_qty self, price tick)]
                                  else [])
                       in (Inr signals, self\<lparr>mac_prev_diff := Some diff\<rparr>)))"

record MomentumStrategy =
  mom_symbol :: string
  mom_lb :: nat
  mom_th :: pyfloat
  mom_qty :: int
  mom_prices :: "pyfloat list"

definition MomentumStrategy_init ::
  "string \<Rightarrow> int \<Rightarrow> pyfloat \<Rightarrow> int \<Rightarrow> exn + MomentumStrategy" where
  "MomentumStrategy_init smb lookback threshold qty =
     (if \<not> lookback > 0 then Inl (ValueError ''lookback must be a positive integer.'')
      else if \<not> fle (Finite 0) threshold
      then Inl (ValueError ''threshold must be a non-negative number.'')
      else if maxsize < lookback + 1 then Inl OverflowError
      else Inr \<lparr>mom_symbol = smb, mom_lb = nat lookback, mom_th = threshold, mom_qty = qty,
                mom_prices = []\<rparr>)"

definition mom_generate_signals ::
  "arith \<Rightarrow> MomentumStrategy \<Rightarrow> MarketDataPoint \<Rightarrow> (exn + signal list) \<times> MomentumStrategy" where
  "mom_generate_signals F self tick =
     (if symbol tick \<noteq> mom_symbol self then (Inr [], self)
      else
        let self = self\<lparr>mom_prices := deque_append (mom_lb self + 1) (mom_prices self) (price tick)\<rparr>
        in if length (mom_prices self) \<le> mom_lb self then (Inr [], self)
           else
             case mom_prices self of
               [] \<Rightarrow> (Inl IndexError, self)
             | past # _ \<Rightarrow>
                 if fle past (Finite 0) then (Inr [], self)
                 else
                   case float_div F (price tick) past of
                     Inl e \<Rightarrow> (Inl e, self)
                   | Inr ratio \<Rightarrow>
                       let ret = f_sub F ratio (Finite 1)
                       in if fle (mom_th self) ret
                          then (Inr [(''BUY'', mom_symbol self, mom_qty self, price tick)], self)
                          else if fle ret (fneg (mom_th self))
                          then (Inr [(''SELL'', mom_symbol self, mom_qty self, price tick)], self)
                          else (Inr [], self))"

text \<open>
  The abstract base class \<open>Strategy\<close>: the two concrete strategies, and any other
  implementation of \<open>generate_signals\<close>. Such a strategy is deterministic, so what it
  returns or raises on a tick is a function of the ticks it has been given before.
\<close>

datatype strategy =
    MAC MovingAverageCrossover
  | MOM MomentumStrategy
  | Other "MarketDataPoint list" "MarketDataPoint list \<Rightarrow> MarketDataPoint \<Rightarrow> exn + signal list"

fun generate_signals ::
  "arith \<Rightarrow> strategy \<Rightarrow> MarketDataPoint \<Rightarrow> (exn + signal list) \<times> strategy" where
  "generate_signals F (MAC s) tick =
     (case mac_generate_signals F s tick of (r, s') \<Rightarrow> (r, MAC s'))"
| "generate_signals F (MOM s) tick =
     (case mom_generate_signals F s tick of (r, s') \<Rightarrow> (r, MOM s'))"
| "generate_signals F (Other seen f) tick = (f seen tick, Other (seen @ [tick]) f)"

section \<open>Execution engine (engine.py)\<close>

record Position =
  pos_quantity :: int
  avg_price :: pyfloat

text \<open>
  The three formats of the error log, with the values they interpolate: the exception,
  and for a strategy error the timestamp of the tick.
\<close>

datatype log_entry =
    LogStrategyError exn datetime
  | LogOrderError exn
  | LogExecutionError exn

text \<open>
  The engine's fields. \<open>strategies\<close> is a list of references to strategy objects, and
  \<open>objects\<close> holds the object behind each reference, so that one object registered twice
  is one object. \<open>cash\<close> is \<open>portfolio["CASH"]["amount"]\<close>. The module-level random
  generator is the sequence \<open>random_source\<close> of the values \<open>random.random()\<close> returns and
  the number \<open>random_count\<close> of values drawn so far.
\<close>

record BacktestEngine =
  strategies :: "nat list"
  objects :: "nat \<Rightarrow> strategy"
  initial_cash :: pyfloat
  fail_prob :: pyfloat
  cash :: pyfloat
  positions :: "(string \<times> Position) list"
  last_prices :: "(string \<times> pyfloat) list"
  order_history :: "Order list"
  errors :: "log_entry list"
  equity_curve :: "(datetime \<times> pyfloat) list"
  random_source :: "nat \<Rightarrow> pyfloat"
  random_count :: nat

definition BacktestEngine_init ::
  "nat list \<Rightarrow> (nat \<Rightarrow> strategy) \<Rightarrow> pyfloat \<Rightarrow> pyfloat \<Rightarrow> (nat \<Rightarrow> pyfloat) \<Rightarrow> BacktestEngine" where
  "BacktestEngine_init refs objs init_cash fp rnd =
     \<lparr>strategies = refs, objects = objs, initial_cash = init_cash, fail_prob = fp,
      cash = init_cash, positions = [], last_prices = [], order_history = [], errors = [],
      equity_curve = [], random_source = rnd, random_count = 0\<rparr>"

definition ensure_symbol :: "BacktestEngine \<Rightarrow> string \<Rightarrow> BacktestEngine" where
  "ensure_symbol eng smb =
     (if map_of (positions eng) smb = None
      then eng\<lparr>positions := dict_set (positions eng) smb \<lparr>pos_quantity = 0, avg_price = Finite 0\<rparr>\<rparr>
      else eng)"

text \<open>The loop of \<open>_equity\<close>; the product of an int quantity and a price can raise.\<close>

fun equity_loop ::
  "arith \<Rightarrow> (string \<times> pyfloat) list \<Rightarrow> (string \<times> Position) list \<Rightarrow> pyfloat \<Rightarrow> exn + pyfloat" where
  "equity_loop F prices [] eq = Inr eq"
| "equity_loop F prices ((smb, pos) # rest) eq =
     (case int_times_float F (pos_quantity pos) (dict_get_default prices smb (Finite 0)) of
        Inl e \<Rightarrow> Inl e
      | Inr v \<Rightarrow> equity_loop F prices rest (f_add F eq v))"

definition equity :: "arith \<Rightarrow> BacktestEngine \<Rightarrow> exn + pyfloat" where
  "equity F eng = equity_loop F (last_prices eng) (positions eng) (cash eng)"

definition create_order :: "string \<Rightarrow> string \<Rightarrow> int \<Rightarrow> pyfloat \<Rightarrow> exn + Order" where
  "create_order action smb qty px =
     (let sd = (if upper action = ''BUY'' then ''BUY'' else ''SELL'');
          ord = \<lparr>order_symbol = smb, quantity = qty, order_price = px, side = sd, status = ''NEW''\<rparr>
      in case validate ord of Some e \<Rightarrow> Inl e | None \<Rightarrow> Inr ord)"

text \<open>
  \<open>_execute_order\<close> mutates the order and the engine, also when it raises: the result is
  the exception raised (if any), the order and the engine as the call leaves them.
\<close>

definition execute_order ::
  "arith \<Rightarrow> BacktestEngine \<Rightarrow> Order \<Rightarrow> exn option \<times> Order \<times> BacktestEngine" where
  "execute_order F eng0 ord =
     (let r = random_source eng0 (random_count eng0);
          eng1 = eng0\<lparr>random_count := Suc (random_count eng0)\<rparr>
      in if flt r (fail_prob eng1)
         then (Some (ExecutionError (SimulatedFailure (side ord) (quantity ord) (order_symbol ord) (order_price ord))),
               ord\<lparr>status := ''ERROR''\<rparr>, eng1)
         else
           let eng = ensure_symbol eng1 (order_symbol ord)
           in case map_of (positions eng) (order_symbol ord) of
                None \<Rightarrow> (Some (KeyError (order_symbol ord)), ord, eng)
              | Some pos \<Rightarrow>
                  let csh = cash eng; qty = quantity ord; px = order_price ord
                  in if side ord = ''BUY'' then
                       case int_times_float F qty px of
                         Inl e \<Rightarrow> (Some e, ord, eng)
                       | Inr cost \<Rightarrow>
                           if flt csh cost
                           then (Some (ExecutionError (InsufficientCash qty (order_symbol ord) px)),
                                 ord\<lparr>status := ''REJECTED''\<rparr>, eng)
                           else
                             case float_times_int F (avg_price pos) (pos_quantity pos) of
                               Inl e \<Rightarrow> (Some e, ord, eng)
                             | Inr held \<Rightarrow>
                                 let total_cost = f_add F held cost;
                                     total_qty = pos_quantity pos + qty
                                 in case (if total_qty \<noteq> 0 then float_div_int F total_cost total_qty
                                          else Inr (Finite 0)) of
                                      Inl e \<Rightarrow> (Some e, ord, eng)
                                    | Inr avg \<Rightarrow>
                                        let pos = pos\<lparr>avg_price := avg\<rparr>;
                                            pos = pos\<lparr>pos_quantity := total_qty\<rparr>
                                        in (None, ord\<lparr>status := ''FILLED''\<rparr>,
                                            eng\<lparr>positions := dict_set (positions eng) (order_symbol ord) pos,
                                                cash := f_sub F csh cost\<rparr>)
                     else
                       if pos_quantity pos < qty
                       then (Some (ExecutionError (InsufficientPosition qty (order_symbol ord))),
                             ord\<lparr>status := ''REJECTED''\<rparr>, eng)
                       else
                         case int_times_float F qty px of
                           Inl e \<Rightarrow> (Some e, ord, eng)
                         | Inr proceeds \<Rightarrow>
                             let pos = pos\<lparr>pos_quantity := pos_quantity pos - qty\<rparr>;
                                 pos = (if pos_quantity pos = 0 then pos\<lparr>avg_price := Finite 0\<rparr> else pos)
                             in (None, ord\<lparr>status := ''FILLED''\<rparr>,
                                 eng\<lparr>positions := dict_set (positions eng) (order_symbol ord) pos,
                                     cash := f_add F csh proceeds\<rparr>))"

text \<open>
  The strategy loop of \<open>process\<close>: each reference is followed to its object, the object
  is left as \<open>generate_signals\<close> leaves it, and every exception of a strategy is caught and
  logged.
\<close>

fun run_strategies ::
  "arith \<Rightarrow> MarketDataPoint \<Rightarrow> nat list \<Rightarrow> (nat \<Rightarrow> strategy) \<Rightarrow> signal list \<Rightarrow> log_entry list
     \<Rightarrow> (nat \<Rightarrow> strategy) \<times> signal list \<times> log_entry list" where
  "run_strategies F tick [] objs signals errs = (objs, signals, errs)"
| "run_strategies F tick (ref # rest) objs signals errs =
     (case generate_signals F (objs ref) tick of
        (Inr out, strat') \<Rightarrow> run_strategies F tick rest (objs(ref := strat')) (signals @ out) errs
      | (Inl e, strat') \<Rightarrow>
          run_strategies F tick rest (objs(ref := strat')) signals
            (errs @ [LogStrategyError e (timestamp tick)]))"

text \<open>
  The two \<open>except\<close> clauses of the signal loop: an \<open>OrderError\<close> and an \<open>ExecutionError\<close>
  are logged, any other exception propagates out of \<open>process\<close>. A result is the exception
  that propagates (if any) and the engine as it is left.
\<close>

fun handle_exn :: "BacktestEngine \<Rightarrow> exn \<Rightarrow> exn option \<times> BacktestEngine" where
  "handle_exn eng (OrderError m) =
     (None, eng\<lparr>errors := errors eng @ [LogOrderError (OrderError m)]\<rparr>)"
| "handle_exn eng (ExecutionError m) =
     (None, eng\<lparr>errors := errors eng @ [LogExecutionError (ExecutionError m)]\<rparr>)"
| "handle_exn eng e = (Some e, eng)"

text \<open>
  The body of the signal loop. The order appended to the history is the object that
  \<open>_execute_order\<close> mutates, so its slot of the history holds the order as the call leaves it.
\<close>

definition process_signal :: "arith \<Rightarrow> BacktestEngine \<Rightarrow> signal \<Rightarrow> exn option \<times> BacktestEngine" where
  "process_signal F eng sig =
     (case sig of (action, smb, qty, px) \<Rightarrow>
        (case create_order action smb qty px of
           Inl e \<Rightarrow> handle_exn eng e
         | Inr ord \<Rightarrow>
             let slot = length (order_history eng);
                 eng1 = eng\<lparr>order_history := order_history eng @ [ord]\<rparr>
             in case execute_order F eng1 ord of
                  (raised, ord', eng2) \<Rightarrow>
                    let eng3 = eng2\<lparr>order_history := (order_history eng2)[slot := ord']\<rparr>
                    in (case raised of None \<Rightarrow> (None, eng3) | Some e \<Rightarrow> handle_exn eng3 e)))"

fun process_signals ::
  "arith \<Rightarrow> BacktestEngine \<Rightarrow> signal list \<Rightarrow> exn option \<times> BacktestEngine" where
  "process_signals F eng [] = (None, eng)"
| "process_signals F eng (sig # rest) =
     (case process_signal F eng sig of
        (Some e, eng') \<Rightarrow> (Some e, eng')
      | (None, eng') \<Rightarrow> process_signals F eng' rest)"

text \<open>The body of the tick loop.\<close>

definition process_tick ::
  "arith \<Rightarrow> BacktestEngine \<Rightarrow> MarketDataPoint \<Rightarrow> exn option \<times> BacktestEngine" where
  "process_tick F eng tick =
     (let eng1 = eng\<lparr>last_prices := dict_set (last_prices eng) (symbol tick) (price tick)\<rparr>
      in case run_strategies F tick (strategies eng1) (objects eng1) [] (errors eng1) of
           (objs', signals, errs') \<Rightarrow>
             (case process_signals F (eng1\<lparr>objects := objs', errors := errs'\<rparr>) signals of
                (Some e, eng2) \<Rightarrow> (Some e, eng2)
              | (None, eng2) \<Rightarrow>
                  (case equity F eng2 of
                     Inl e \<Rightarrow> (Some e, eng2)
                   | Inr eq \<Rightarrow>
                       (None, eng2\<lparr>equity_curve := equity_curve eng2 @ [(timestamp tick, eq)]\<rparr>))))"

fun process_ticks ::
  "arith \<Rightarrow> BacktestEngine \<Rightarrow> MarketDataPoint list \<Rightarrow> exn option \<times> BacktestEngine" where
  "process_ticks F eng [] = (None, eng)"
| "process_ticks F eng (tick # rest) =
     (case process_tick F eng tick of
        (Some e, eng') \<Rightarrow> (Some e, eng')
      | (None, eng') \<Rightarrow> process_ticks F eng' rest)"

text \<open>\<open>process\<close>: the ticks are sorted by timestamp, then the tick loop runs.\<close>

definition process ::
  "arith \<Rightarrow> BacktestEngine \<Rightarrow> MarketDataPoint list \<Rightarrow> exn option \<times> BacktestEngine" where
  "process F eng ticks =
     (case sorted_by timestamp ticks of
        Inl e \<Rightarrow> (Some e, eng)
      | Inr sorted_ticks \<Rightarrow> process_ticks F eng sorted_ticks)"

section \<open>Notions used to state the properties\<close>

text \<open>
  An arithmetic that rounds nothing, used for the closed examples. It agrees with the float
  arithmetic wherever the operands and the exact result are floats, as they are in every
  example below.
\<close>

fun exact_add :: "pyfloat \<Rightarrow> pyfloat \<Rightarrow> pyfloat" where
  "exact_add (Finite a) (Finite b) = Finite (a + b)"
| "exact_add NaN b = NaN"
| "exact_add a NaN = NaN"
| "exact_add PosInf NegInf = NaN"
| "exact_add NegInf PosInf = NaN"
| "exact_add PosInf b = PosInf"
| "exact_add a PosInf = PosInf"
| "exact_add NegInf b = NegInf"
| "exact_add a NegInf = NegInf"

fun sign_of :: "pyfloat \<Rightarrow> int" where
  "sign_of (Finite a) = (if 0 < a then 1 else if a < 0 then - 1 else 0)"
| "sign_of PosInf = 1"
| "sign_of NegInf = - 1"
| "sign_of NaN = 0"

definition signed_inf :: "int \<Rightarrow> pyfloat" where
  "signed_inf s = (if 0 < s then PosInf else if s < 0 then NegInf else NaN)"

fun exact_mul :: "pyfloat \<Rightarrow> pyfloat \<Rightarrow> pyfloat" where
  "exact_mul (Finite a) (Finite b) = Finite (a * b)"
| "exact_mul NaN b = NaN"
| "exact_mul a NaN = NaN"
| "exact_mul a b = signed_inf (sign_of a * sign_of b)"

fun exact_div :: "pyfloat \<Rightarrow> pyfloat \<Rightarrow> pyfloat" where
  "exact_div (Finite a) (Finite b) = Finite (a / b)"
| "exact_div NaN b = NaN"
| "exact_div a NaN = NaN"
| "exact_div (Finite a) b = Finite 0"
| "exact_div a (Finite b) = signed_inf (sign_of a * sign_of (Finite b))"
| "exact_div a b = NaN"

definition exact :: arith where
  "exact =
     \<lparr>f_of_int = (\<lambda>n. Finite (real_of_int n)),
      f_add = exact_add,
      f_sub = (\<lambda>a b. exact_add a (fneg b)),
      f_mul = exact_mul,
      f_div = exact_div,
      f_sum = (\<lambda>xs. foldl exact_add (Finite 0) xs)\<rparr>"

text \<open>
  The position the ledger holds for a symbol, a missing one read as the zero position
  that \<open>_ensure_symbol\<close> would record.
\<close>

definition position_of :: "BacktestEngine \<Rightarrow> string \<Rightarrow> Position" where
  "position_of eng smb =
     dict_get_default (positions eng) smb \<lparr>pos_quantity = 0, avg_price = Finite 0\<rparr>"

text \<open>The engine after one value has been drawn from the random generator.\<close>

definition drawn :: "BacktestEngine \<Rightarrow> BacktestEngine" where
  "drawn eng = eng\<lparr>random_count := Suc (random_count eng)\<rparr>"


text \<open>A random generator that returns the same value at every draw.\<close>

definition constant_draws :: "pyfloat \<Rightarrow> nat \<Rightarrow> pyfloat" where
  "constant_draws r n = r"


text \<open>A strategy that never emits a signal, and a store that holds it at every reference.\<close>

definition silent :: "MarketDataPoint list \<Rightarrow> MarketDataPoint \<Rightarrow> exn + signal list" where
  "silent seen tick = Inr []"

definition no_objects :: "nat \<Rightarrow> strategy" where
  "no_objects ref = Other [] silent"

text \<open>
  Feeding a strategy a sequence of ticks, one call of \<open>generate_signals\<close> per tick: the
  strategy as the last call leaves it.
\<close>

fun mom_feed :: "arith \<Rightarrow> MomentumStrategy \<Rightarrow> MarketDataPoint list \<Rightarrow> MomentumStrategy" where
  "mom_feed F self [] = self"
| "mom_feed F self (tick # ticks) = mom_feed F (snd (mom_generate_signals F self tick)) ticks"

fun mac_feed ::
  "arith \<Rightarrow> MovingAverageCrossover \<Rightarrow> MarketDataPoint list \<Rightarrow> MovingAverageCrossover" where
  "mac_feed F self [] = self"
| "mac_feed F self (tick # ticks) = mac_feed F (snd (mac_generate_signals F self tick)) ticks"

text \<open>The prices of the ticks of one symbol, in the order of the ticks.\<close>

definition prices_of :: "string \<Rightarrow> MarketDataPoint list \<Rightarrow> pyfloat list" where
  "prices_of smb ticks = map price (filter (\<lambda>t. symbol t = smb) ticks)"

text \<open>
  The return of the specification, as the code computes it: the price divided by the price
  of \<open>lb\<close> ticks ago, minus 1.
\<close>

definition momentum_return :: "arith \<Rightarrow> pyfloat \<Rightarrow> pyfloat \<Rightarrow> pyfloat" where
  "momentum_return F px past = f_sub F (f_div F px past) (Finite 1)"

text \<open>
  The notions of the specification, over the whole price history of the symbol and with the
  code's own arithmetic: the mean of the last \<open>n\<close> prices; the fast-minus-slow difference
  of the two means, which is computed once the history holds \<open>slow\<close> prices and neither
  mean is not-a-number; and the previous difference, the one computed most recently.
\<close>

definition mean_last :: "arith \<Rightarrow> nat \<Rightarrow> pyfloat list \<Rightarrow> pyfloat" where
  "mean_last F n hist = f_div F (f_sum F (drop (length hist - n) hist)) (f_of_int F (int n))"

definition computed_diff :: "arith \<Rightarrow> nat \<Rightarrow> nat \<Rightarrow> pyfloat list \<Rightarrow> pyfloat option" where
  "computed_diff F fast slow hist =
     (if length hist < slow \<or> mean_last F fast hist = NaN \<or> mean_last F slow hist = NaN
      then None
      else Some (f_sub F (mean_last F fast hist) (mean_last F slow hist)))"

fun latest_diff :: "arith \<Rightarrow> nat \<Rightarrow> nat \<Rightarrow> pyfloat list \<Rightarrow> pyfloat option" where
  "latest_diff F fast slow [] = None"
| "latest_diff F fast slow (newest # older) =
     (case computed_diff F fast slow (rev (newest # older)) of
        Some d \<Rightarrow> Some d
      | None \<Rightarrow> latest_diff F fast slow older)"

definition previous_diff :: "arith \<Rightarrow> nat \<Rightarrow> nat \<Rightarrow> pyfloat list \<Rightarrow> pyfloat option" where
  "previous_diff F fast slow hist = latest_diff F fast slow (rev hist)"

text \<open>The signal the specification asks for, given the previous and the current difference.\<close>

definition crossover :: "pyfloat option \<Rightarrow> pyfloat option \<Rightarrow> string option" where
  "crossover prev cur =
     (case (prev, cur) of
        (Some p, Some d) \<Rightarrow>
          if fle p (Finite 0) \<and> flt (Finite 0) d then Some ''BUY''
          else if fle (Finite 0) p \<and> flt d (Finite 0) then Some ''SELL''
          else None
      | _ \<Rightarrow> None)"



text \<open>
  Example runs. An engine with 10000 in cash, no simulated failure, and one Momentum
  strategy for AAPL with lookback 1 and threshold 0 that trades the given quantity; AAPL
  ticks at 100, 200 and 100.
\<close>

definition rising_ticks :: "MarketDataPoint list" where
  "rising_ticks =
     [\<lparr>timestamp = Naive 0, symbol = ''AAPL'', price = Finite 100\<rparr>,
      \<lparr>timestamp = Naive 1, symbol = ''AAPL'', price = Finite 200\<rparr>]"


definition momentum_engine :: "int \<Rightarrow> BacktestEngine" where
  "momentum_engine qty =
     BacktestEngine_init [0]
       (no_objects(0 := MOM (projr (MomentumStrategy_init ''AAPL'' 1 (Finite 0) qty))))
       (Finite 10000) (Finite 0) (constant_draws (Finite (1/2)))"

text \<open>
  A strategy of another class that answers every tick with a BUY of 1 of the tick's symbol
  at the price \<open>float('nan')\<close>, and the same engine with this strategy alone.
\<close>

definition nan_signal :: "MarketDataPoint list \<Rightarrow> MarketDataPoint \<Rightarrow> exn + signal list" where
  "nan_signal seen tick = Inr [(''BUY'', symbol tick, 1, NaN)]"

definition nan_engine :: BacktestEngine where
  "nan_engine =
     BacktestEngine_init [0] (no_objects(0 := Other [] nan_signal))
       (Finite 10000) (Finite 0) (constant_draws (Finite (1/2)))"

section \<open>Dictionaries, conversions and the ledger helpers\<close>




lemma float_of_int_in_range:
  "\<bar>n\<bar> \<le> maxsize \<Longrightarrow> float_of_int F n = Inr (f_of_int F n)"
  by (simp add: float_of_int_def maxsize_def)





lemma ensure_symbol_fields [simp]:
  "cash (ensure_symbol eng smb) = cash eng"
  "last_prices (ensure_symbol eng smb) = last_prices eng"
  "order_history (ensure_symbol eng smb) = order_history eng"
  "errors (ensure_symbol eng smb) = errors eng"
  "equity_curve (ensure_symbol eng smb) = equity_curve eng"
  "strategies (ensure_symbol eng smb) = strategies eng"
  "objects (ensure_symbol eng smb) = objects eng"
  "random_count (ensure_symbol eng smb) = random_count eng"
  "random_source (ensure_symbol eng smb) = random_source eng"
  "fail_prob (ensure_symbol eng smb) = fail_prob eng"
  "initial_cash (ensure_symbol eng smb) = initial_cash eng"
  by (simp_all add: ensure_symbol_def)

lemma drawn_fields [simp]:
  "cash (drawn eng) = cash eng"
  "positions (drawn eng) = positions eng"
  "last_prices (drawn eng) = last_prices eng"
  "order_history (drawn eng) = order_history eng"
  "errors (drawn eng) = errors eng"
  "equity_curve (drawn eng) = equity_curve eng"
  "strategies (drawn eng) = strategies eng"
  "objects (drawn eng) = objects eng"
  "random_count (drawn eng) = Suc (random_count eng)"
  "random_source (drawn eng) = random_source eng"
  "fail_prob (drawn eng) = fail_prob eng"
  "initial_cash (drawn eng) = initial_cash eng"
  by (simp_all add: drawn_def)



lemma position_of_drawn [simp]: "position_of (drawn eng) smb = position_of eng smb"
  by (simp add: position_of_def)





section \<open>Execution and the ledger\<close>





section \<open>Orders from signals\<close>

lemma upper_char_B: "upper_char c = CHR ''B'' \<longleftrightarrow> c = CHR ''B'' \<or> c = CHR ''b''"
  by (simp add: upper_char_def)

lemma upper_char_U: "upper_char c = CHR ''U'' \<longleftrightarrow> c = CHR ''U'' \<or> c = CHR ''u''"
  by (simp add: upper_char_def)

lemma upper_char_Y: "upper_char c = CHR ''Y'' \<longleftrightarrow> c = CHR ''Y'' \<or> c = CHR ''y''"
  by (simp add: upper_char_def)

lemma upper_BUY:
  "upper s = ''BUY'' \<longleftrightarrow>
     s \<in> {''BUY'', ''BUy'', ''BuY'', ''Buy'', ''bUY'', ''bUy'', ''buY'', ''buy''}"
proof -
  have "upper s = ''BUY'' \<longleftrightarrow>
          (\<exists>a b c. s = [a, b, c] \<and> upper_char a = CHR ''B'' \<and> upper_char b = CHR ''U''
                     \<and> upper_char c = CHR ''Y'')"
    by (auto simp: upper_def map_eq_Cons_conv)
  also have "\<dots> \<longleftrightarrow> s \<in> {''BUY'', ''BUy'', ''BuY'', ''Buy'', ''bUY'', ''bUy'', ''buY'', ''buy''}"
    unfolding upper_char_B upper_char_U upper_char_Y by auto
  finally show ?thesis .
qed

lemma create_order_eq:
  "create_order action smb qty px =
     (if qty \<le> 0 then Inl (OrderError ''Quantity must be positive.'')
      else if fle px (Finite 0) then Inl (OrderError ''Price must be positive.'')
      else Inr \<lparr>order_symbol = smb, quantity = qty, order_price = px,
                side = (if upper action = ''BUY'' then ''BUY'' else ''SELL''), status = ''NEW''\<rparr>)"
  by (simp add: create_order_def validate_def Let_def)

text \<open>
  C8. The order made from a signal has side BUY if and only if the action is one of the
  eight spellings of BUY in upper and lower case; for every other action string the side
  is SELL. The action never makes the creation fail: an order is created exactly when the
  quantity is positive and the price is not \<open>\<le> 0\<close>, whatever the action is.
\<close>

theorem create_order_side:
  "(0 < qty \<and> \<not> fle px (Finite 0) \<longrightarrow>
      (\<exists>ord. create_order action smb qty px = Inr ord
         \<and> (side ord = ''BUY'' \<longleftrightarrow>
              action \<in> {''BUY'', ''BUy'', ''BuY'', ''Buy'', ''bUY'', ''bUy'', ''buY'', ''buy''})
         \<and> (side ord \<noteq> ''BUY'' \<longrightarrow> side ord = ''SELL'')))
   \<and> ((\<exists>e. create_order action smb qty px = Inl e) \<longleftrightarrow> \<not> (0 < qty \<and> \<not> fle px (Finite 0)))
   \<and> (fle (Finite x) (Finite 0) \<longleftrightarrow> x \<le> 0)"
  by (auto simp: create_order_eq upper_BUY fle_def simp del: insert_iff)

text \<open>
  The action \<open>hold\<close> gives a SELL order, the action \<open>Buy\<close> a BUY order, and a quantity of 0
  is refused whatever the action.
\<close>

theorem create_order_side_witness:
  "side (projr (create_order ''hold'' ''AAPL'' 10 (Finite 150))) = ''SELL''
   \<and> side (projr (create_order ''Buy'' ''AAPL'' 10 (Finite 150))) = ''BUY''
   \<and> isl (create_order ''BUY'' ''AAPL'' 0 (Finite 150))"
  using create_order_side [of 10 "Finite 150" "''hold''" "''AAPL''"]
    create_order_side [of 10 "Finite 150" "''Buy''" "''AAPL''"]
    create_order_side [of 0 "Finite 150" "''BUY''" "''AAPL''"]
  by (simp add: create_order_eq upper_def upper_char_def fle_def)

section \<open>Momentum strategy\<close>

lemma deque_append_last:
  "deque_append m (drop (length h - m) h) x = drop (length (h @ [x]) - m) (h @ [x])"
  by (cases "length h < m") (auto simp: deque_append_def Suc_diff_le)

lemma mom_step_state:
  "snd (mom_generate_signals F self tick) =
     (if symbol tick = mom_symbol self
      then self\<lparr>mom_prices := deque_append (mom_lb self + 1) (mom_prices self) (price tick)\<rparr>
      else self)"
  by (simp add: mom_generate_signals_def Let_def split: list.splits sum.splits)

lemma mom_feed_snoc:
  "mom_feed F self (ticks @ [tick]) = snd (mom_generate_signals F (mom_feed F self ticks) tick)"
  by (induction ticks arbitrary: self) simp_all

lemma mom_feed_state:
  assumes "MomentumStrategy_init smb lookback threshold qty = Inr s0"
  shows "mom_feed F s0 ticks =
           s0\<lparr>mom_prices := drop (length (prices_of smb ticks) - (nat lookback + 1)) (prices_of smb ticks)\<rparr>"
proof -
  from assms have s0: "s0 = \<lparr>mom_symbol = smb, mom_lb = nat lookback, mom_th = threshold, mom_qty = qty,
                mom_prices = []\<rparr>"
    by (auto simp: MomentumStrategy_init_def split: if_splits)
  show ?thesis
  proof (induction ticks rule: rev_induct)
    case Nil
    then show ?case by (simp add: prices_of_def s0)
  next
    case (snoc tick ticks)
    show ?case
      unfolding mom_feed_snoc snoc.IH mom_step_state
      using deque_append_last [of "nat lookback + 1" "prices_of smb ticks" "price tick"]
      by (simp add: s0 prices_of_def)
  qed
qed

lemma fle_zero_self: "fle (Finite 0) (Finite 0)"
  by (simp add: fle_def)

lemma mom_output_window:
  "fst (mom_generate_signals F self tick) =
     (if symbol tick \<noteq> mom_symbol self then Inr []
      else if length (deque_append (mom_lb self + 1) (mom_prices self) (price tick)) \<le> mom_lb self
      then Inr []
      else case deque_append (mom_lb self + 1) (mom_prices self) (price tick) of
             [] \<Rightarrow> Inl IndexError
           | past # _ \<Rightarrow>
               if fle past (Finite 0) then Inr []
               else if fle (mom_th self) (momentum_return F (price tick) past)
               then Inr [(''BUY'', mom_symbol self, mom_qty self, price tick)]
               else if fle (momentum_return F (price tick) past) (fneg (mom_th self))
               then Inr [(''SELL'', mom_symbol self, mom_qty self, price tick)]
               else Inr [])"
proof -
  have nz: "\<not> fle past (Finite 0) \<Longrightarrow> float_div F x past = Inr (f_div F x past)" for past x
    using fle_zero_self by (auto simp: float_div_def)
  show ?thesis
    by (auto simp: mom_generate_signals_def Let_def momentum_return_def nz split: list.splits)
qed

lemma mom_generate_signals_history:
  assumes init: "MomentumStrategy_init smb lookback threshold qty = Inr s0"
  shows "fst (mom_generate_signals F (mom_feed F s0 ticks) tick) =
     Inr (if symbol tick \<noteq> smb then []
          else if length (prices_of smb ticks) < nat lookback then []
          else if fle (prices_of smb ticks ! (length (prices_of smb ticks) - nat lookback)) (Finite 0)
          then []
          else if fle threshold
                    (momentum_return F (price tick)
                       (prices_of smb ticks ! (length (prices_of smb ticks) - nat lookback)))
               then [(''BUY'', smb, qty, price tick)]
          else if fle (momentum_return F (price tick)
                         (prices_of smb ticks ! (length (prices_of smb ticks) - nat lookback)))
                      (fneg threshold)
               then [(''SELL'', smb, qty, price tick)]
          else [])"
proof -
  define hist where "hist = prices_of smb ticks"
  define lb where "lb = nat lookback"
  define S where "S = mom_feed F s0 ticks"
  from init have pos: "0 < lb" and s0: "s0 = \<lparr>mom_symbol = smb, mom_lb = lb, mom_th = threshold,
      mom_qty = qty, mom_prices = []\<rparr>"
    by (auto simp: MomentumStrategy_init_def lb_def split: if_splits)
  have st: "S = \<lparr>mom_symbol = smb, mom_lb = lb, mom_th = threshold,
      mom_qty = qty, mom_prices = drop (length hist - (lb + 1)) hist\<rparr>"
    using mom_feed_state [OF init, of F ticks] by (simp add: hist_def lb_def s0 S_def)
  have par: "mom_symbol S = smb" "mom_lb S = lb" "mom_th S = threshold" "mom_qty S = qty"
    by (simp_all add: st)
  have w: "deque_append (lb + 1) (mom_prices S) (price tick)
             = drop (length hist - lb) (hist @ [price tick])"
    using deque_append_last [of "lb + 1" hist "price tick"] by (simp add: st)
  have out: "fst (mom_generate_signals F S tick) =
     (if symbol tick \<noteq> smb then Inr []
      else if length (drop (length hist - lb) (hist @ [price tick])) \<le> lb
      then Inr []
      else case drop (length hist - lb) (hist @ [price tick]) of
             [] \<Rightarrow> Inl IndexError
           | past # _ \<Rightarrow>
               if fle past (Finite 0) then Inr []
               else if fle threshold (momentum_return F (price tick) past)
               then Inr [(''BUY'', smb, qty, price tick)]
               else if fle (momentum_return F (price tick) past) (fneg threshold)
               then Inr [(''SELL'', smb, qty, price tick)]
               else Inr [])"
    unfolding mom_output_window par w ..
  show ?thesis
  proof (cases "length hist < lb")
    case True
    then show ?thesis
      unfolding S_def [symmetric] hist_def [symmetric] lb_def [symmetric] out by simp
  next
    case False
    then have "drop (length hist - lb) hist \<noteq> []" using pos by simp
    then obtain rest where dc: "drop (length hist - lb) hist = hist ! (length hist - lb) # rest"
      using False pos by (metis Cons_nth_drop_Suc drop_eq_Nil linorder_not_le)
    from False pos have len: "\<not> length (drop (length hist - lb) (hist @ [price tick])) \<le> lb"
      by simp
    show ?thesis
      unfolding S_def [symmetric] hist_def [symmetric] lb_def [symmetric] out
      using False len by (simp add: dc)
  qed
qed

text \<open>
  C5, as amended. A Momentum strategy is constructed only with lookback > 0 and
  threshold \<ge> 0. Fed any sequence of ticks and then one more tick, it emits at most one
  signal; nothing for a tick of another symbol; nothing while fewer than lookback+1 prices
  of its symbol (the current one included) have been seen. Afterwards, with \<open>past\<close> the price
  of its symbol from exactly lookback ticks ago and \<open>ret\<close> the return \<open>price/past - 1\<close> as the
  code computes it, it emits nothing when \<open>past \<le> 0\<close>, BUY when \<open>ret \<ge> threshold\<close>, SELL when
  \<open>ret \<le> -threshold\<close> and not \<open>ret \<ge> threshold\<close> (the BUY test is made first), and nothing
  otherwise.
\<close>

theorem momentum_signals:
  assumes "MomentumStrategy_init smb lookback threshold qty = Inr s0"
    and "hist = prices_of smb ticks"
    and "past = hist ! (length hist - nat lookback)"
    and "ret = momentum_return F (price tick) past"
  shows "0 < lookback \<and> fle (Finite 0) threshold
     \<and> (\<exists>out. fst (mom_generate_signals F (mom_feed F s0 ticks) tick) = Inr out
          \<and> length out \<le> 1
          \<and> (symbol tick \<noteq> smb \<longrightarrow> out = [])
          \<and> (symbol tick = smb \<and> length hist + 1 < nat lookback + 1 \<longrightarrow> out = [])
          \<and> (symbol tick = smb \<and> nat lookback + 1 \<le> length hist + 1 \<longrightarrow>
                (fle past (Finite 0) \<longrightarrow> out = [])
              \<and> (\<not> fle past (Finite 0) \<and> fle threshold ret \<longrightarrow>
                    out = [(''BUY'', smb, qty, price tick)])
              \<and> (\<not> fle past (Finite 0) \<and> \<not> fle threshold ret \<and> fle ret (fneg threshold) \<longrightarrow>
                    out = [(''SELL'', smb, qty, price tick)])
              \<and> (\<not> fle past (Finite 0) \<and> \<not> fle threshold ret \<and> \<not> fle ret (fneg threshold) \<longrightarrow>
                    out = [])))"
proof -
  from assms(1) have "0 < lookback \<and> fle (Finite 0) threshold"
    by (auto simp: MomentumStrategy_init_def split: if_splits)
  then show ?thesis
    unfolding mom_generate_signals_history [OF assms(1)] assms(2-4) by auto
qed

text \<open>
  C5 as stated fails when the threshold is 0 and the return is exactly 0: the return is
  \<open>\<le> -threshold\<close>, and the signal emitted is a BUY, not a SELL.
\<close>

theorem momentum_sell_condition_emits_buy:
  "fst (mom_generate_signals exact
         (mom_feed exact (projr (MomentumStrategy_init ''AAPL'' 1 (Finite 0) 1))
            [\<lparr>timestamp = Naive 0, symbol = ''AAPL'', price = Finite 100\<rparr>])
         \<lparr>timestamp = Naive 1, symbol = ''AAPL'', price = Finite 100\<rparr>)
     = Inr [(''BUY'', ''AAPL'', 1, Finite 100)]
   \<and> fle (momentum_return exact (Finite 100) (Finite 100)) (fneg (Finite 0))"
  by (simp add: MomentumStrategy_init_def mom_generate_signals_def deque_append_def Let_def
      maxsize_def fle_def float_div_def exact_def momentum_return_def)

text \<open>
  Lookback 1, threshold 1/4: after an AAPL price of 100 and a tick of another symbol, an
  AAPL price of 50 has the return -1/2 and gives a SELL.
\<close>

theorem momentum_signals_witness:
  "fst (mom_generate_signals exact
         (mom_feed exact (projr (MomentumStrategy_init ''AAPL'' 1 (Finite (1/4)) 3))
            [\<lparr>timestamp = Naive 0, symbol = ''AAPL'', price = Finite 100\<rparr>,
             \<lparr>timestamp = Naive 1, symbol = ''MSFT'', price = Finite 7\<rparr>])
         \<lparr>timestamp = Naive 2, symbol = ''AAPL'', price = Finite 50\<rparr>)
     = Inr [(''SELL'', ''AAPL'', 3, Finite 50)]"
  using momentum_signals [of "''AAPL''" 1 "Finite (1/4)" 3
      "projr (MomentumStrategy_init ''AAPL'' 1 (Finite (1/4)) 3)"
      "[Finite 100]" "[\<lparr>timestamp = Naive 0, symbol = ''AAPL'', price = Finite 100\<rparr>,
             \<lparr>timestamp = Naive 1, symbol = ''MSFT'', price = Finite 7\<rparr>]" "Finite 100" "Finite (-1/2)"
      exact "\<lparr>timestamp = Naive 2, symbol = ''AAPL'', price = Finite 50\<rparr>"]
  by (simp add: MomentumStrategy_init_def prices_of_def maxsize_def fle_def exact_def momentum_return_def)

text \<open>
  C10. For a Momentum strategy constructed with threshold 0, on a tick of its symbol with
  the window full, \<open>past\<close> not \<open>\<le> 0\<close> and a computed return of exactly 0, the BUY test and the
  SELL test both hold and the strategy emits the BUY signal alone.
\<close>

theorem momentum_zero_threshold_tie:
  assumes "MomentumStrategy_init smb lookback (Finite 0) qty = Inr s0"
    and "symbol tick = smb"
    and "hist = prices_of smb ticks"
    and "nat lookback \<le> length hist"
    and "past = hist ! (length hist - nat lookback)"
    and "\<not> fle past (Finite 0)"
    and "momentum_return F (price tick) past = Finite 0"
  shows "fle (Finite 0) (momentum_return F (price tick) past)
     \<and> fle (momentum_return F (price tick) past) (fneg (Finite 0))
     \<and> fst (mom_generate_signals F (mom_feed F s0 ticks) tick) = Inr [(''BUY'', smb, qty, price tick)]"
  unfolding mom_generate_signals_history [OF assms(1)] using assms(2-) by (simp add: fle_def)

text \<open>
  Lookback 2, threshold 0: the prices 50, 70, 50 give a return of exactly 0 on the third
  tick, and a BUY.
\<close>

theorem momentum_zero_threshold_tie_witness:
  "fst (mom_generate_signals exact
         (mom_feed exact (projr (MomentumStrategy_init ''AAPL'' 2 (Finite 0) 5))
            [\<lparr>timestamp = Naive 0, symbol = ''AAPL'', price = Finite 50\<rparr>,
             \<lparr>timestamp = Naive 1, symbol = ''AAPL'', price = Finite 70\<rparr>])
         \<lparr>timestamp = Naive 2, symbol = ''AAPL'', price = Finite 50\<rparr>)
     = Inr [(''BUY'', ''AAPL'', 5, Finite 50)]"
  using momentum_zero_threshold_tie [of "''AAPL''" 2 5
      "projr (MomentumStrategy_init ''AAPL'' 2 (Finite 0) 5)"
      "\<lparr>timestamp = Naive 2, symbol = ''AAPL'', price = Finite 50\<rparr>" "[Finite 50, Finite 70]"
      "[\<lparr>timestamp = Naive 0, symbol = ''AAPL'', price = Finite 50\<rparr>,
        \<lparr>timestamp = Naive 1, symbol = ''AAPL'', price = Finite 70\<rparr>]" "Finite 50" exact]
  by (simp add: MomentumStrategy_init_def prices_of_def maxsize_def fle_def exact_def momentum_return_def)

section \<open>Moving-average crossover strategy\<close>

lemma sma_window:
  assumes "0 < n" "n \<le> m" "m \<le> length h" "int n \<le> maxsize"
  shows "sma F (drop (length h - m) h) n = Inr (mean_last F n h)"
proof -
  have "length (drop (length h - m) h) - n + (length h - m) = length h - n"
    using assms by simp
  then have "drop (length (drop (length h - m) h) - n) (drop (length h - m) h) = drop (length h - n) h"
    by (simp only: drop_drop)
  moreover have "float_of_int F (int n) = Inr (f_of_int F (int n))"
    using assms(4) by (intro float_of_int_in_range) simp
  ultimately show ?thesis
    using assms by (simp add: sma_def slice_last_def mean_last_def float_div_int_def)
qed

lemma previous_diff_snoc:
  "previous_diff F fast slow (hist @ [p]) =
     (case computed_diff F fast slow (hist @ [p]) of
        Some d \<Rightarrow> Some d
      | None \<Rightarrow> previous_diff F fast slow hist)"
  by (simp add: previous_diff_def split: option.splits)

lemma mac_step:
  assumes fs: "0 < fast" "fast < slow" "int slow \<le> maxsize"
    and self: "self = \<lparr>mac_symbol = smb, mac_fast = fast, mac_slow = slow, mac_qty = qty,
                 mac_prices = drop (length hist - slow) hist,
                 mac_prev_diff = previous_diff F fast slow hist\<rparr>"
    and same: "symbol tick = smb"
  shows "mac_generate_signals F self tick =
     (Inr (case crossover (previous_diff F fast slow hist)
                  (computed_diff F fast slow (hist @ [price tick])) of
             None \<Rightarrow> []
           | Some action \<Rightarrow> [(action, smb, qty, price tick)]),
      \<lparr>mac_symbol = smb, mac_fast = fast, mac_slow = slow, mac_qty = qty,
       mac_prices = drop (length (hist @ [price tick]) - slow) (hist @ [price tick]),
       mac_prev_diff = previous_diff F fast slow (hist @ [price tick])\<rparr>)"
proof -
  define h where "h = hist @ [price tick]"
  define w where "w = drop (length h - slow) h"
  have w: "deque_append slow (drop (length hist - slow) hist) (price tick) = w"
    unfolding w_def h_def by (rule deque_append_last)
  have pd: "previous_diff F fast slow h =
     (case computed_diff F fast slow h of
        Some d \<Rightarrow> Some d
      | None \<Rightarrow> previous_diff F fast slow hist)"
    unfolding h_def by (rule previous_diff_snoc)
  have step: "mac_generate_signals F self tick =
     (if length w < slow then (Inr [], self\<lparr>mac_prices := w\<rparr>)
      else
        case sma F w fast of
          Inl e \<Rightarrow> (Inl e, self\<lparr>mac_prices := w\<rparr>)
        | Inr fast_ma \<Rightarrow>
           (case sma F w slow of
              Inl e \<Rightarrow> (Inl e, self\<lparr>mac_prices := w\<rparr>)
            | Inr slow_ma \<Rightarrow>
                if fast_ma = NaN \<or> slow_ma = NaN then (Inr [], self\<lparr>mac_prices := w\<rparr>)
                else
                  (Inr (case mac_prev_diff self of
                          None \<Rightarrow> []
                        | Some prev \<Rightarrow>
                            if fle prev (Finite 0) \<and> flt (Finite 0) (f_sub F fast_ma slow_ma)
                            then [(''BUY'', smb, qty, price tick)]
                            else if fle (Finite 0) prev \<and> flt (f_sub F fast_ma slow_ma) (Finite 0)
                            then [(''SELL'', smb, qty, price tick)]
                            else []),
                   self\<lparr>mac_prices := w, mac_prev_diff := Some (f_sub F fast_ma slow_ma)\<rparr>)))"
    using same unfolding mac_generate_signals_def Let_def
    by (simp add: self w split: sum.splits option.splits)
  show ?thesis
  proof (cases "length h < slow")
    case True
    then have "length w < slow" by (simp add: w_def)
    moreover from True have "computed_diff F fast slow h = None"
      by (simp add: computed_diff_def)
    ultimately show ?thesis
      unfolding step h_def [symmetric] w_def [symmetric]
      by (simp add: self crossover_def pd split: option.splits)
  next
    case False
    then have len: "\<not> length w < slow" by (simp add: w_def)
    from False fs have f: "sma F w fast = Inr (mean_last F fast h)"
      unfolding w_def by (intro sma_window) simp_all
    from False fs have s: "sma F w slow = Inr (mean_last F slow h)"
      unfolding w_def by (intro sma_window) simp_all
    show ?thesis
    proof (cases "mean_last F fast h = NaN \<or> mean_last F slow h = NaN")
      case True
      then have "computed_diff F fast slow h = None" by (simp add: computed_diff_def)
      with True show ?thesis
        unfolding step h_def [symmetric] w_def [symmetric]
        using len by (simp add: f s self crossover_def pd split: option.splits)
    next
      case nn: False
      with False have d: "computed_diff F fast slow h
          = Some (f_sub F (mean_last F fast h) (mean_last F slow h))"
        by (simp add: computed_diff_def)
      show ?thesis
        unfolding step h_def [symmetric] w_def [symmetric]
        using len nn by (simp add: f s d self crossover_def pd split: option.splits)
    qed
  qed
qed

lemma mac_skip:
  "symbol tick \<noteq> mac_symbol self \<Longrightarrow> mac_generate_signals F self tick = (Inr [], self)"
  by (simp add: mac_generate_signals_def)

lemma mac_feed_snoc:
  "mac_feed F self (ticks @ [tick]) = snd (mac_generate_signals F (mac_feed F self ticks) tick)"
  by (induction ticks arbitrary: self) simp_all

lemma mac_feed_state:
  assumes "MovingAverageCrossover_init smb fast slow qty = Inr s0"
  shows "mac_feed F s0 ticks =
           \<lparr>mac_symbol = smb, mac_fast = nat fast, mac_slow = nat slow, mac_qty = qty,
            mac_prices = drop (length (prices_of smb ticks) - nat slow) (prices_of smb ticks),
            mac_prev_diff = previous_diff F (nat fast) (nat slow) (prices_of smb ticks)\<rparr>"
proof -
  from assms have fs: "0 < nat fast" "nat fast < nat slow" "int (nat slow) \<le> maxsize"
    and s0: "s0 = \<lparr>mac_symbol = smb, mac_fast = nat fast, mac_slow = nat slow, mac_qty = qty,
                mac_prices = [], mac_prev_diff = None\<rparr>"
    by (auto simp: MovingAverageCrossover_init_def split: if_splits)
  show ?thesis
  proof (induction ticks rule: rev_induct)
    case Nil
    from fs show ?case by (simp add: prices_of_def s0 previous_diff_def)
  next
    case (snoc tick ticks)
    show ?case
    proof (cases "symbol tick = smb")
      case True
      then have p: "prices_of smb (ticks @ [tick]) = prices_of smb ticks @ [price tick]"
        by (simp add: prices_of_def)
      show ?thesis
        unfolding mac_feed_snoc p mac_step [OF fs snoc.IH True] by simp
    next
      case False
      then have p: "prices_of smb (ticks @ [tick]) = prices_of smb ticks"
        by (simp add: prices_of_def)
      from False show ?thesis
        unfolding mac_feed_snoc p snoc.IH by (simp add: mac_skip)
    qed
  qed
qed

lemma mac_generate_signals_history:
  assumes init: "MovingAverageCrossover_init smb fast slow qty = Inr s0"
  shows "fst (mac_generate_signals F (mac_feed F s0 ticks) tick) =
     Inr (if symbol tick \<noteq> smb then []
          else case crossover (previous_diff F (nat fast) (nat slow) (prices_of smb ticks))
                    (computed_diff F (nat fast) (nat slow) (prices_of smb ticks @ [price tick])) of
                 None \<Rightarrow> []
               | Some action \<Rightarrow> [(action, smb, qty, price tick)])"
proof -
  from init have fs: "0 < nat fast" "nat fast < nat slow" "int (nat slow) \<le> maxsize"
    by (auto simp: MovingAverageCrossover_init_def split: if_splits)
  show ?thesis
  proof (cases "symbol tick = smb")
    case True
    show ?thesis
      unfolding mac_step [OF fs mac_feed_state [OF init] True] using True by simp
  next
    case False
    then show ?thesis
      unfolding mac_feed_state [OF init] by (simp add: mac_skip)
  qed
qed

lemma flt_asym: "flt a b \<Longrightarrow> flt b a \<Longrightarrow> False"
  by (cases a; cases b) auto

lemma previous_diff_short: "length hist < slow \<Longrightarrow> previous_diff F fast slow hist = None"
proof (induction hist rule: rev_induct)
  case Nil
  show ?case by (simp add: previous_diff_def)
next
  case (snoc p hist)
  then show ?case by (simp add: previous_diff_snoc computed_diff_def)
qed

text \<open>
  C4. A Moving-Average Crossover strategy is constructed only with 0 < fast < slow. Fed any
  sequence of ticks and then one more tick, it emits at most one signal, and nothing for a
  tick of another symbol. For a tick of its symbol, with \<open>prev\<close> the fast-minus-slow SMA
  difference computed most recently before this tick and \<open>cur\<close> the one computed on
  this tick, both as the code computes them, it emits a BUY exactly when \<open>prev \<le> 0\<close> and
  \<open>cur > 0\<close>, a SELL exactly when \<open>prev \<ge> 0\<close> and \<open>cur < 0\<close>, and nothing else. While the
  history holds fewer than \<open>slow\<close> prices no difference is computed and nothing is emitted,
  and nothing is emitted on the tick where the first difference is computed.
\<close>

theorem crossover_signals:
  assumes "MovingAverageCrossover_init smb fast slow qty = Inr s0"
    and "hist = prices_of smb ticks"
    and "prev = previous_diff F (nat fast) (nat slow) hist"
    and "cur = computed_diff F (nat fast) (nat slow) (hist @ [price tick])"
  shows "0 < fast \<and> fast < slow
     \<and> (\<exists>out. fst (mac_generate_signals F (mac_feed F s0 ticks) tick) = Inr out
          \<and> length out \<le> 1
          \<and> (symbol tick \<noteq> smb \<longrightarrow> out = [])
          \<and> (symbol tick = smb \<longrightarrow>
                (out = [(''BUY'', smb, qty, price tick)]
                   \<longleftrightarrow> (\<exists>p d. prev = Some p \<and> cur = Some d \<and> fle p (Finite 0) \<and> flt (Finite 0) d))
              \<and> (out = [(''SELL'', smb, qty, price tick)]
                   \<longleftrightarrow> (\<exists>p d. prev = Some p \<and> cur = Some d \<and> fle (Finite 0) p \<and> flt d (Finite 0)))
              \<and> (out = [] \<or> out = [(''BUY'', smb, qty, price tick)]
                   \<or> out = [(''SELL'', smb, qty, price tick)])
              \<and> (length (hist @ [price tick]) < nat slow \<longrightarrow> cur = None \<and> out = [])
              \<and> (length (hist @ [price tick]) = nat slow \<longrightarrow> prev = None)
              \<and> (prev = None \<longrightarrow> out = [])))"
proof -
  from assms(1) have fs: "0 < fast \<and> fast < slow"
    by (auto simp: MovingAverageCrossover_init_def split: if_splits)
  have none: "length (hist @ [price tick]) \<le> nat slow \<Longrightarrow> prev = None"
    unfolding assms(3) by (rule previous_diff_short) simp
  have short: "length (hist @ [price tick]) < nat slow \<Longrightarrow> cur = None"
    by (simp add: assms(4) computed_diff_def)
  show ?thesis
    unfolding mac_generate_signals_history [OF assms(1)] assms(2) [symmetric]
      assms(3) [symmetric] assms(4) [symmetric]
    using fs none short
    by (cases prev; cases cur) (auto simp: crossover_def dest: flt_asym)
qed

text \<open>
  Windows 1 and 2: after the prices 10 and 10 the difference is 0; the price 12 makes it 1,
  and a BUY is emitted.
\<close>

theorem crossover_signals_witness:
  "fst (mac_generate_signals exact
         (mac_feed exact (projr (MovingAverageCrossover_init ''AAPL'' 1 2 10))
            [\<lparr>timestamp = Naive 0, symbol = ''AAPL'', price = Finite 10\<rparr>,
             \<lparr>timestamp = Naive 1, symbol = ''AAPL'', price = Finite 10\<rparr>])
         \<lparr>timestamp = Naive 2, symbol = ''AAPL'', price = Finite 12\<rparr>)
     = Inr [(''BUY'', ''AAPL'', 10, Finite 12)]"
proof -
  have init: "MovingAverageCrossover_init ''AAPL'' 1 2 10
      = Inr (projr (MovingAverageCrossover_init ''AAPL'' 1 2 10))"
    by (simp add: MovingAverageCrossover_init_def maxsize_def)
  have hist: "[Finite 10, Finite 10] = prices_of ''AAPL''
      [\<lparr>timestamp = Naive 0, symbol = ''AAPL'', price = Finite 10\<rparr>,
       \<lparr>timestamp = Naive 1, symbol = ''AAPL'', price = Finite 10\<rparr>]"
    by (simp add: prices_of_def)
  have prev: "Some (Finite 0) = previous_diff exact (nat 1) (nat 2) [Finite 10, Finite 10]"
    by (simp add: previous_diff_def computed_diff_def mean_last_def exact_def)
  have cur: "Some (Finite 1) = computed_diff exact (nat 1) (nat 2)
      ([Finite 10, Finite 10] @ [price \<lparr>timestamp = Naive 2, symbol = ''AAPL'', price = Finite 12\<rparr>])"
    by (simp add: computed_diff_def mean_last_def exact_def)
  from crossover_signals [OF init hist prev cur] show ?thesis
    by (auto simp: fle_def)
qed

section \<open>One signal\<close>






section \<open>The loops of process\<close>



section \<open>Order status\<close>








section \<open>Example runs\<close>

lemmas run_simps =
  process_def sorted_by_def process_tick_def process_signal_def create_order_eq upper_def
  upper_char_def execute_order_def BacktestEngine_init_def constant_draws_def ensure_symbol_def
  Let_def fle_def int_times_float_def float_times_int_def float_div_int_def float_of_int_def
  float_div_def exact_def MomentumStrategy_init_def mom_generate_signals_def deque_append_def
  maxsize_def equity_def dict_get_default_def

lemma huge_quantity_run:
  "process exact (momentum_engine (2 ^ 1024)) rising_ticks =
     (Some OverflowError,
      (momentum_engine (2 ^ 1024))
        \<lparr>objects := no_objects(0 := MOM \<lparr>mom_symbol = ''AAPL'', mom_lb = 1, mom_th = Finite 0,
                                          mom_qty = 2 ^ 1024, mom_prices = [Finite 100, Finite 200]\<rparr>),
         positions := [(''AAPL'', \<lparr>pos_quantity = 0, avg_price = Finite 0\<rparr>)],
         last_prices := [(''AAPL'', Finite 200)],
         order_history :=
           [\<lparr>order_symbol = ''AAPL'', quantity = 2 ^ 1024, order_price = Finite 200,
             side = ''BUY'', status = ''NEW''\<rparr>],
         equity_curve := [(Naive 0, Finite 10000)],
         random_count := 1\<rparr>)"
  by (simp add: momentum_engine_def rising_ticks_def run_simps)


lemma nan_price_run:
  "process exact nan_engine [\<lparr>timestamp = Naive 0, symbol = ''AAPL'', price = Finite 100\<rparr>] =
     (None,
      nan_engine
        \<lparr>objects := no_objects(0 := Other [\<lparr>timestamp = Naive 0, symbol = ''AAPL'', price = Finite 100\<rparr>] nan_signal),
         cash := NaN,
         positions := [(''AAPL'', \<lparr>pos_quantity = 1, avg_price = NaN\<rparr>)],
         last_prices := [(''AAPL'', Finite 100)],
         order_history :=
           [\<lparr>order_symbol = ''AAPL'', quantity = 1, order_price = NaN,
             side = ''BUY'', status = ''FILLED''\<rparr>],
         equity_curve := [(Naive 0, NaN)],
         random_count := 1\<rparr>)"
  by (simp add: nan_engine_def nan_signal_def run_simps)


section \<open>Exceptions that leave the signal loop\<close>

text \<open>
  C2 does not hold of the code. A Momentum strategy built with \<open>qty = 2 ** 1024\<close>
  (lookback 1, threshold 0) emits on the second of two AAPL ticks, at 100 and 200, a BUY
  that passes validation. In \<open>_execute_order\<close> the product \<open>qty * px\<close> of this int and a float
  raises \<open>OverflowError\<close>, which the signal loop does not catch: the tick loop is left
  before the snapshot of the second tick, and the equity curve holds one snapshot for two
  input ticks.
\<close>

theorem process_overflow_skips_snapshot:
  "MomentumStrategy_init ''AAPL'' 1 (Finite 0) (2 ^ 1024)
     = Inr \<lparr>mom_symbol = ''AAPL'', mom_lb = 1, mom_th = Finite 0, mom_qty = 2 ^ 1024, mom_prices = []\<rparr>
   \<and> length rising_ticks = 2
   \<and> equity_curve (snd (process exact (momentum_engine (2 ^ 1024)) rising_ticks))
       = [(Naive 0, Finite 10000)]"
  unfolding huge_quantity_run
  by (simp add: MomentumStrategy_init_def fle_def maxsize_def rising_ticks_def)

text \<open>
  C6 does not hold of the code: \<open>process\<close> does not always complete. In the same run no
  strategy raises and nothing is logged, yet the \<open>OverflowError\<close> raised by \<open>qty * px\<close>
  in \<open>_execute_order\<close> propagates out of \<open>process\<close>, with the order of the second tick left
  in the history as NEW.
\<close>

theorem process_aborted_by_overflow:
  "fst (process exact (momentum_engine (2 ^ 1024)) rising_ticks) = Some OverflowError
   \<and> errors (snd (process exact (momentum_engine (2 ^ 1024)) rising_ticks)) = []
   \<and> map status (order_history (snd (process exact (momentum_engine (2 ^ 1024)) rising_ticks)))
       = [''NEW'']"
  unfolding huge_quantity_run
  by (simp add: momentum_engine_def BacktestEngine_init_def)

section \<open>A price that is not a number\<close>

text \<open>
  C7 does not hold of the code. \<open>Order.validate\<close> rejects a price with \<open>price <= 0\<close>, which is
  false of \<open>float('nan')\<close>, and \<open>cash < cost\<close> is false when the cost is not a number: a BUY
  of 1 at a NaN price, emitted by a strategy on one AAPL tick at 100, is FILLED by an
  engine constructed with cash 10000, and afterwards neither \<open>cash >= 0\<close> nor
  \<open>avg_price >= 0\<close> holds: both are NaN.
\<close>

theorem nan_price_order_filled:
  "fle (Finite 0) (initial_cash nan_engine)
   \<and> fst (process exact nan_engine [\<lparr>timestamp = Naive 0, symbol = ''AAPL'', price = Finite 100\<rparr>]) = None
   \<and> map status (order_history (snd (process exact nan_engine
        [\<lparr>timestamp = Naive 0, symbol = ''AAPL'', price = Finite 100\<rparr>]))) = [''FILLED'']
   \<and> cash (snd (process exact nan_engine
        [\<lparr>timestamp = Naive 0, symbol = ''AAPL'', price = Finite 100\<rparr>])) = NaN
   \<and> positions (snd (process exact nan_engine
        [\<lparr>timestamp = Naive 0, symbol = ''AAPL'', price = Finite 100\<rparr>]))
       = [(''AAPL'', \<lparr>pos_quantity = 1, avg_price = NaN\<rparr>)]
   \<and> fle (Finite 0) NaN = False"
  unfolding nan_price_run
  by (simp add: nan_engine_def BacktestEngine_init_def fle_def)

end
